theory Spec2Isabelle
  imports Complex_Main
begin

section \<open>JavaScript values\<close>

text \<open>
  The values that cross the boundaries of \<^verbatim>\<open>src/App.tsx\<close>: spreadsheet cells, parsed
  JSON, and the properties of result objects. Numbers are idealised as reals; characters
  stand for code units below 256. An object is the list of its own enumerable properties
  in enumeration order, every key occurring once.
\<close>

datatype jsval =
    JUndefined
  | JNull
  | JBool bool
  | JNum real
  | JStr string
  | JArr "jsval list"
  | JObj "(string \<times> jsval) list"

text \<open>A thrown value. Every exception the collaborators and the runtime raise here is an
  \<^verbatim>\<open>Error\<close> object, of which the code only reads \<^verbatim>\<open>message\<close>.\<close>

datatype js_error = Error (message: string)



text \<open>Decimal rendering of an array or string index, as a property key.\<close>

fun string_of_nat :: "nat \<Rightarrow> string" where
  "string_of_nat n =
     (if n < 10 then [''0123456789'' ! n]
      else string_of_nat (n div 10) @ [''0123456789'' ! (n mod 10)])"

declare string_of_nat.simps [simp del]

text \<open>
  The own enumerable properties of a value, which is what an object spread
  \<^verbatim>\<open>{...v}\<close> copies: the properties of an object, the indexed elements of an array, the
  indexed characters of a string, nothing for the other primitives.
\<close>

fun own_props :: "jsval \<Rightarrow> (string \<times> jsval) list" where
  "own_props (JObj ps) = ps"
| "own_props (JArr xs) = zip (map string_of_nat [0..<length xs]) xs"
| "own_props (JStr s) = zip (map string_of_nat [0..<length s]) (map (\<lambda>c. JStr [c]) s)"
| "own_props v = []"

text \<open>\<^verbatim>\<open>key in v\<close> for an own property: the spread copies it.\<close>

definition has_own :: "jsval \<Rightarrow> string \<Rightarrow> bool" where
  "has_own v key \<longleftrightarrow> map_of (own_props v) key \<noteq> None"

text \<open>
  A result object, seen through property lookup. The interface \<^verbatim>\<open>AnalysisResult\<close> of
  \<^verbatim>\<open>types.ts\<close> declares \<^verbatim>\<open>url\<close>, \<^verbatim>\<open>status\<close>, five booleans, \<^verbatim>\<open>summary\<close> and an
  optional \<^verbatim>\<open>error\<close>; at run time the object carries whatever the object literal that
  built it put there, so it is a finite map from property names to values.
\<close>

type_synonym AnalysisResult = "string \<rightharpoonup> jsval"

text \<open>\<^verbatim>\<open>r.k\<close>: a missing property reads as \<^verbatim>\<open>undefined\<close>.\<close>

definition get :: "AnalysisResult \<Rightarrow> string \<Rightarrow> jsval" where
  "get r k = (case r k of None \<Rightarrow> JUndefined | Some v \<Rightarrow> v)"

text \<open>\<^verbatim>\<open>typeof v === 'string'\<close> and \<^verbatim>\<open>typeof v === 'boolean'\<close>.\<close>

definition is_string :: "jsval \<Rightarrow> bool" where
  "is_string v = (case v of JStr s \<Rightarrow> True | _ \<Rightarrow> False)"

definition is_boolean :: "jsval \<Rightarrow> bool" where
  "is_boolean v = (case v of JBool b \<Rightarrow> True | _ \<Rightarrow> False)"

text \<open>The interface \<^verbatim>\<open>AnalysisResult\<close> as a predicate on run-time objects.\<close>

definition is_AnalysisResult :: "AnalysisResult \<Rightarrow> bool" where
  "is_AnalysisResult r \<longleftrightarrow>
     is_string (get r ''url'') \<and>
     (get r ''status'' = JStr ''pending'' \<or> get r ''status'' = JStr ''success''
        \<or> get r ''status'' = JStr ''error'') \<and>
     is_boolean (get r ''missingToC'') \<and>
     is_boolean (get r ''deepLinkableAnchors'') \<and>
     is_boolean (get r ''naturalLanguageHeadings'') \<and>
     is_boolean (get r ''highInformationDensity'') \<and>
     is_boolean (get r ''semanticHtml'') \<and>
     is_string (get r ''summary'') \<and>
     (get r ''error'' = JUndefined \<or> is_string (get r ''error''))"

section \<open>Strings\<close>

definition nl :: string where
  "nl = [CHR 0x0A]"

text \<open>\<^verbatim>\<open>s.split(c)\<close> for a one-character separator: never empty, \<^verbatim>\<open>''.split(c)\<close> is
  \<^verbatim>\<open>['']\<close>.\<close>

fun split_on :: "char \<Rightarrow> string \<Rightarrow> string list" where
  "split_on c [] = [[]]"
| "split_on c (x # xs) =
     (if x = c then [] # split_on c xs
      else (case split_on c xs of [] \<Rightarrow> [[x]] | l # ls \<Rightarrow> (x # l) # ls))"

text \<open>White space that \<^verbatim>\<open>trim\<close> removes, among the code units below 256.\<close>

definition is_space :: "char \<Rightarrow> bool" where
  "is_space c \<longleftrightarrow> c \<in> {CHR 0x09, CHR 0x0A, CHR 0x0B, CHR 0x0C, CHR 0x0D, CHR 0x20, CHR 0xA0}"

definition trim :: "string \<Rightarrow> string" where
  "trim s = rev (dropWhile is_space (rev (dropWhile is_space s)))"



section \<open>The collaborators\<close>

text \<open>
  \<^verbatim>\<open>fetch\<close> either rejects or resolves to a response, of which the code reads
  \<^verbatim>\<open>ok\<close>, \<^verbatim>\<open>statusText\<close> and \<^verbatim>\<open>json()\<close>; the latter rejects or resolves to the parsed
  body.
\<close>

datatype fetch_outcome =
    FetchRejects js_error
  | FetchResolves bool string "js_error + jsval"

text \<open>\<^verbatim>\<open>ai.models.generateContent\<close> either rejects or resolves to a response, of which
  the code reads \<^verbatim>\<open>text\<close>, a string or \<^verbatim>\<open>undefined\<close>.\<close>

datatype generate_outcome =
    GenerateRejects js_error
  | GenerateResolves "string option"

text \<open>
  What the outside does during a run. The same request may be answered differently at
  different times, so \<^verbatim>\<open>fetch\<close> and \<^verbatim>\<open>generateContent\<close> also depend on the number of
  the \<^verbatim>\<open>analyzeUrl\<close> call that issues the request (counted from 0 within a run).
  \<^verbatim>\<open>fetch\<close> is given the URL that is posted to \<^verbatim>\<open>/api/fetch-url\<close>,
  \<^verbatim>\<open>generateContent\<close> the \<^verbatim>\<open>contents\<close> of the request (model, schema and MIME type
  are constants). \<^verbatim>\<open>JSON.parse\<close> is the runtime's: it throws or returns a value.
\<close>

record world =
  fetch :: "nat \<Rightarrow> string \<Rightarrow> fetch_outcome"
  generateContent :: "nat \<Rightarrow> string \<Rightarrow> generate_outcome"
  JSON_parse :: "string \<Rightarrow> js_error + jsval"

section \<open>analyzeUrl\<close>

text \<open>\<^verbatim>\<open>const { html } = v\<close>: destructuring \<^verbatim>\<open>null\<close> or \<^verbatim>\<open>undefined\<close> throws a
  TypeError (the messages are V8's); otherwise \<^verbatim>\<open>html\<close> is the property, or
  \<^verbatim>\<open>undefined\<close>.\<close>

definition destructure_html :: "jsval \<Rightarrow> js_error + jsval" where
  "destructure_html v =
     (case v of
        JNull \<Rightarrow> Inl (Error ''Cannot destructure property 'html' of '(intermediate value)' as it is null.'')
      | JUndefined \<Rightarrow> Inl (Error ''Cannot destructure property 'html' of '(intermediate value)' as it is undefined.'')
      | JObj ps \<Rightarrow> Inr (case map_of ps ''html'' of None \<Rightarrow> JUndefined | Some h \<Rightarrow> h)
      | _ \<Rightarrow> Inr JUndefined)"

text \<open>\<^verbatim>\<open>html.substring(0, 30000)\<close>: only a string has the method.\<close>

definition substring_30000 :: "jsval \<Rightarrow> js_error + string" where
  "substring_30000 html =
     (case html of
        JStr s \<Rightarrow> Inr (take 30000 s)
      | JUndefined \<Rightarrow> Inl (Error ''Cannot read properties of undefined (reading 'substring')'')
      | JNull \<Rightarrow> Inl (Error ''Cannot read properties of null (reading 'substring')'')
      | _ \<Rightarrow> Inl (Error ''html.substring is not a function''))"

text \<open>The template literal of the request, around the truncated HTML.\<close>

definition contents :: "string \<Rightarrow> string" where
  "contents html30000 =
     ''Analyze the following HTML content for SEO and GEO optimization criteria for VW PKW.'' @ nl @
     ''        '' @ nl @
     ''        HTML Content (truncated if too long):'' @ nl @
     ''        '' @ html30000 @ nl @
     ''        '' @ nl @
     ''        Check the following points:'' @ nl @
     ''        1. Missing Table of Contents (ToC): Is there a clear navigation or ToC for the page content?'' @ nl @
     ''        2. Deep-Linkable Anchor Tags: Are headings or sections equipped with IDs that can be linked directly?'' @ nl @
     ''        3. Natural Language & Question-Based Headings: Are headings formulated as questions or in natural language?'' @ nl @
     ''        4. High Information Density (Keywords as Entities): Does the content treat keywords as entities with rich information?'' @ nl @
     ''        5. Semantic HTML Structure: Does the page use proper semantic tags (h1-h6, main, section, article)?'' @ nl @
     ''        '' @ nl @
     ''        Provide a summary of findings for each point.''"

text \<open>
  The \<^verbatim>\<open>try\<close> block up to the parsed \<^verbatim>\<open>data\<close>: \<open>Inl e\<close> when a statement throws
  \<open>e\<close>, in the order the statements run.
\<close>

definition analyze_try :: "world \<Rightarrow> nat \<Rightarrow> string \<Rightarrow> js_error + jsval" where
  "analyze_try w k url =
     (case fetch w k url of
        FetchRejects e \<Rightarrow> Inl e
      | FetchResolves ok statusText body \<Rightarrow>
          if \<not> ok then Inl (Error (''Failed to fetch page content: '' @ statusText))
          else (case body of
             Inl e \<Rightarrow> Inl e
           | Inr v \<Rightarrow>
              (case destructure_html v of
                 Inl e \<Rightarrow> Inl e
               | Inr html \<Rightarrow>
                  (case substring_30000 html of
                     Inl e \<Rightarrow> Inl e
                   | Inr h \<Rightarrow>
                      (case generateContent w k (contents h) of
                         GenerateRejects e \<Rightarrow> Inl e
                       | GenerateResolves text \<Rightarrow>
                           JSON_parse w
                             (case text of
                                None \<Rightarrow> ''{}''
                              | Some t \<Rightarrow> if t = [] then ''{}'' else t))))))"

text \<open>\<^verbatim>\<open>{ url, status: 'success', ...data }\<close>: the properties of \<^verbatim>\<open>data\<close> are copied
  last, over the two written out.\<close>

definition success_record :: "string \<Rightarrow> jsval \<Rightarrow> AnalysisResult" where
  "success_record url data =
     [''url'' \<mapsto> JStr url, ''status'' \<mapsto> JStr ''success''] ++ map_of (own_props data)"

text \<open>The object literal of the \<^verbatim>\<open>catch\<close> block.\<close>

definition error_record :: "string \<Rightarrow> js_error \<Rightarrow> AnalysisResult" where
  "error_record url e =
     [''url'' \<mapsto> JStr url,
      ''status'' \<mapsto> JStr ''error'',
      ''missingToC'' \<mapsto> JBool False,
      ''deepLinkableAnchors'' \<mapsto> JBool False,
      ''naturalLanguageHeadings'' \<mapsto> JBool False,
      ''highInformationDensity'' \<mapsto> JBool False,
      ''semanticHtml'' \<mapsto> JBool False,
      ''summary'' \<mapsto> JStr [],
      ''error'' \<mapsto> JStr (message e)]"

definition analyzeUrl :: "world \<Rightarrow> nat \<Rightarrow> string \<Rightarrow> AnalysisResult" where
  "analyzeUrl w k url =
     (case analyze_try w k url of
        Inr data \<Rightarrow> success_record url data
      | Inl e \<Rightarrow> error_record url e)"

section \<open>handleAnalyze\<close>

text \<open>What a run does, in order: the state setters it calls, with the value that
  becomes the state, and the \<^verbatim>\<open>analyzeUrl\<close> calls it makes.\<close>

datatype event =
    SetIsAnalyzing bool
  | SetResults "AnalysisResult list"
  | AnalyzeUrl nat string

text \<open>The record of the initial snapshot.\<close>

definition pending_record :: "string \<Rightarrow> AnalysisResult" where
  "pending_record url =
     [''url'' \<mapsto> JStr url,
      ''status'' \<mapsto> JStr ''pending'',
      ''missingToC'' \<mapsto> JBool False,
      ''deepLinkableAnchors'' \<mapsto> JBool False,
      ''naturalLanguageHeadings'' \<mapsto> JBool False,
      ''highInformationDensity'' \<mapsto> JBool False,
      ''semanticHtml'' \<mapsto> JBool False,
      ''summary'' \<mapsto> JStr []]"

text \<open>\<^verbatim>\<open>prev.map(r => r.url === url ? result : r)\<close>.\<close>

definition replace_by_url :: "string \<Rightarrow> AnalysisResult \<Rightarrow> AnalysisResult list \<Rightarrow> AnalysisResult list" where
  "replace_by_url url result prev = map (\<lambda>r. if get r ''url'' = JStr url then result else r) prev"

text \<open>
  The \<^verbatim>\<open>for\<close> loop over \<^verbatim>\<open>urlList\<close>. \<open>k\<close> counts the calls made so far and \<open>prev\<close>
  is the latest \<^verbatim>\<open>results\<close> state, which the functional update receives (nothing else
  sets \<^verbatim>\<open>results\<close> while the run lasts). The array \<^verbatim>\<open>newResults\<close> is written and
  never read, and is left out.
\<close>

fun analyze_loop :: "world \<Rightarrow> nat \<Rightarrow> string list \<Rightarrow> AnalysisResult list \<Rightarrow> event list" where
  "analyze_loop w k [] prev = []"
| "analyze_loop w k (url # rest) prev =
     (let result = analyzeUrl w k url;
          next = replace_by_url url result prev
      in AnalyzeUrl k url # SetResults next # analyze_loop w (Suc k) rest next)"

text \<open>\<^verbatim>\<open>urls.split('\n').map(u => u.trim()).filter(u => u.length > 0)\<close>.\<close>

definition urlList :: "string \<Rightarrow> string list" where
  "urlList urls = filter (\<lambda>u. length u > 0) (map trim (split_on (CHR 0x0A) urls))"

definition handleAnalyze :: "world \<Rightarrow> string \<Rightarrow> event list" where
  "handleAnalyze w urls =
     (let us = urlList urls in
      if length us = 0 then []
      else
        let initial = map pending_record us in
        SetIsAnalyzing True # SetResults initial #
          analyze_loop w 0 us initial @ [SetIsAnalyzing False])"

text \<open>The successive values of the \<^verbatim>\<open>results\<close> state, and the URLs handed to
  \<^verbatim>\<open>analyzeUrl\<close>, in a run.\<close>

fun published :: "event list \<Rightarrow> AnalysisResult list list" where
  "published [] = []"
| "published (SetResults rs # es) = rs # published es"
| "published (e # es) = published es"


section \<open>Spreadsheet import and export\<close>










section \<open>Sample runs\<close>

text \<open>
  Concrete collaborators for the examples below. \<open>JSON_parse_sample\<close> is
  \<^verbatim>\<open>JSON.parse\<close> on the four JSON texts that occur in them; the only other text that
  occurs, \<^verbatim>\<open>not json\<close>, is not JSON, and \<^verbatim>\<open>JSON.parse\<close> throws a SyntaxError on it.
\<close>

definition scenario_text :: string where
  \<open>scenario_text = ''{"missingToC":true,"deepLinkableAnchors":false,"naturalLanguageHeadings":true,"highInformationDensity":false,"semanticHtml":true,"summary":"ok"}''\<close>

definition scenario_data :: jsval where
  "scenario_data =
     JObj [(''missingToC'', JBool True),
           (''deepLinkableAnchors'', JBool False),
           (''naturalLanguageHeadings'', JBool True),
           (''highInformationDensity'', JBool False),
           (''semanticHtml'', JBool True),
           (''summary'', JStr ''ok'')]"

definition url_text :: string where
  \<open>url_text = ''{"url":"https://b.example","status":"pending"}''\<close>

definition extra_text :: string where
  \<open>extra_text = ''{"summary":"ok","score":7}''\<close>

definition JSON_parse_sample :: "string \<Rightarrow> js_error + jsval" where
  "JSON_parse_sample t =
     (if t = ''{}'' then Inr (JObj [])
      else if t = scenario_text then Inr scenario_data
      else if t = url_text then
        Inr (JObj [(''url'', JStr ''https://b.example''), (''status'', JStr ''pending'')])
      else if t = extra_text then Inr (JObj [(''summary'', JStr ''ok''), (''score'', JNum 7)])
      else Inl (Error (''Unexpected token in JSON: '' @ t)))"

definition page_ok :: fetch_outcome where
  "page_ok = FetchResolves True ''OK'' (Inr (JObj [(''html'', JStr ''<main><h1>Golf</h1></main>'')]))"

text \<open>Every page is retrieved and every scoring call answers with the given text.\<close>

definition world_answering :: "string option \<Rightarrow> world" where
  "world_answering text =
     \<lparr>fetch = (\<lambda>k url. page_ok),
      generateContent = (\<lambda>k c. GenerateResolves text),
      JSON_parse = JSON_parse_sample\<rparr>"

text \<open>The scoring service throws in the second call only.\<close>

definition world_second_scoring_fails :: world where
  "world_second_scoring_fails =
     \<lparr>fetch = (\<lambda>k url. page_ok),
      generateContent = (\<lambda>k c. if k = 1 then GenerateRejects (Error ''503 Service Unavailable'')
                                else GenerateResolves (Some scenario_text)),
      JSON_parse = JSON_parse_sample\<rparr>"

text \<open>The proxy answers the first call with a 404.\<close>

definition world_first_fetch_fails :: world where
  "world_first_fetch_fails =
     \<lparr>fetch = (\<lambda>k url. if k = 0 then FetchResolves False ''Not Found'' (Inl (Error ''unread''))
                        else page_ok),
      generateContent = (\<lambda>k c. GenerateResolves (Some scenario_text)),
      JSON_parse = JSON_parse_sample\<rparr>"

definition two_urls :: string where
  "two_urls = ''https://a.example'' @ nl @ ''https://b.example''"

definition same_url_twice :: string where
  "same_url_twice = ''https://a.example'' @ nl @ ''https://a.example''"

section \<open>The published states of a run\<close>

lemma published_snoc_flag: "published (es @ [SetIsAnalyzing b]) = published es"
  by (induction es rule: published.induct) simp_all



lemma published_loop_length: "length (published (analyze_loop w k us prev)) = length us"
  by (induction us arbitrary: k prev) (simp_all add: Let_def)

lemma published_loop_step:
  "j < length us \<Longrightarrow>
   (prev # published (analyze_loop w k us prev)) ! Suc j =
     replace_by_url (us ! j) (analyzeUrl w (k + j) (us ! j))
       ((prev # published (analyze_loop w k us prev)) ! j)"
proof (induction us arbitrary: k prev j)
  case Nil
  then show ?case by simp
next
  case (Cons u us)
  show ?case
  proof (cases j)
    case 0
    then show ?thesis by (simp add: Let_def)
  next
    case (Suc i)
    with Cons.prems have "i < length us" by simp
    from Cons.IH [OF this, of "replace_by_url u (analyzeUrl w k u) prev" "Suc k"]
    show ?thesis using Suc by (simp add: Let_def)
  qed
qed

lemma handle_published:
  assumes "urlList urls \<noteq> []"
  shows "published (handleAnalyze w urls) =
           map pending_record (urlList urls) #
             published (analyze_loop w 0 (urlList urls) (map pending_record (urlList urls)))"
  using assms by (simp add: handleAnalyze_def Let_def published_snoc_flag)

lemma handle_length:
  assumes "urlList urls \<noteq> []"
  shows "length (published (handleAnalyze w urls)) = Suc (length (urlList urls))"
  using assms by (simp add: handle_published published_loop_length)

lemma handle_first:
  assumes "urlList urls \<noteq> []"
  shows "published (handleAnalyze w urls) ! 0 = map pending_record (urlList urls)"
  using assms by (simp add: handle_published)

lemma handle_step:
  assumes "urlList urls \<noteq> []" "j < length (urlList urls)"
  shows "published (handleAnalyze w urls) ! Suc j =
           replace_by_url (urlList urls ! j) (analyzeUrl w j (urlList urls ! j))
             (published (handleAnalyze w urls) ! j)"
  using published_loop_step [OF assms(2), of "map pending_record (urlList urls)" w 0] assms(1)
  by (simp add: handle_published)

lemma replace_length: "length (replace_by_url u r prev) = length prev"
  by (simp add: replace_by_url_def)

lemma handle_state_length:
  assumes "urlList urls \<noteq> []" "j \<le> length (urlList urls)"
  shows "length (published (handleAnalyze w urls) ! j) = length (urlList urls)"
  using assms(2)
proof (induction j)
  case 0
  then show ?case using assms(1) by (simp add: handle_first)
next
  case (Suc j)
  then show ?case using assms(1) by (simp add: handle_step replace_length)
qed

lemma get_pending_url: "get (pending_record u) ''url'' = JStr u"
  by (simp add: get_def pending_record_def)

lemma get_error_url: "get (error_record u e) ''url'' = JStr u"
  by (simp add: get_def error_record_def)

lemma get_success:
  "get (success_record u data) key =
     (case map_of (own_props data) key of
        Some v \<Rightarrow> v
      | None \<Rightarrow> if key = ''url'' then JStr u
                else if key = ''status'' then JStr ''success'' else JUndefined)"
  by (simp add: get_def success_record_def map_add_def split: option.splits)

lemma analyzeUrl_keeps_url:
  assumes "\<forall>data. analyze_try w k u = Inr data \<longrightarrow> \<not> has_own data ''url''"
  shows "get (analyzeUrl w k u) ''url'' = JStr u"
proof (cases "analyze_try w k u")
  case (Inl e)
  then show ?thesis by (simp add: analyzeUrl_def get_error_url)
next
  case (Inr data)
  with assms have "map_of (own_props data) ''url'' = None" by (simp add: has_own_def)
  with Inr show ?thesis by (simp add: analyzeUrl_def get_success)
qed

lemma replace_nth:
  "i < length prev \<Longrightarrow>
   replace_by_url u r prev ! i = (if get (prev ! i) ''url'' = JStr u then r else prev ! i)"
  by (simp add: replace_by_url_def)

lemma unique_position:
  assumes ne: "urlList urls \<noteq> []"
    and i: "i < length (urlList urls)"
    and uniq: "\<forall>j < length (urlList urls). j \<noteq> i \<longrightarrow> urlList urls ! j \<noteq> urlList urls ! i"
    and keep: "get (analyzeUrl w i (urlList urls ! i)) ''url'' = JStr (urlList urls ! i)"
    and j: "j \<le> length (urlList urls)"
  shows "published (handleAnalyze w urls) ! j ! i =
           (if i < j then analyzeUrl w i (urlList urls ! i) else pending_record (urlList urls ! i))"
  using j
proof (induction j)
  case 0
  then show ?case using ne i by (simp add: handle_first)
next
  case (Suc j)
  let ?S = "published (handleAnalyze w urls)"
  let ?us = "urlList urls"
  from Suc.prems have jn: "j < length ?us" by simp
  then have IH: "?S ! j ! i = (if i < j then analyzeUrl w i (?us ! i) else pending_record (?us ! i))"
    using Suc.IH by simp
  have len: "length (?S ! j) = length ?us"
    using handle_state_length [OF ne, of j w] jn by simp
  have url: "get (?S ! j ! i) ''url'' = JStr (?us ! i)"
    using IH keep by (simp add: get_pending_url)
  have step: "?S ! Suc j ! i = (if ?us ! i = ?us ! j then analyzeUrl w j (?us ! j) else ?S ! j ! i)"
    using handle_step [OF ne jn, of w] i len url by (simp add: replace_nth)
  show ?case
  proof (cases "i = j")
    case True
    then show ?thesis using step by simp
  next
    case False
    then have "?us ! j \<noteq> ?us ! i" using uniq jn by simp
    then have "?S ! Suc j ! i = ?S ! j ! i" using step by auto
    moreover have "i < Suc j \<longleftrightarrow> i < j" using False by auto
    ultimately show ?thesis using IH by simp
  qed
qed


section \<open>The sample runs evaluated\<close>

lemma urlList_two_urls: "urlList two_urls = [''https://a.example'', ''https://b.example'']"
  by (simp add: urlList_def two_urls_def nl_def trim_def is_space_def)

lemma urlList_same_url_twice: "urlList same_url_twice = [''https://a.example'', ''https://a.example'']"
  by (simp add: urlList_def same_url_twice_def nl_def trim_def is_space_def)

lemmas sample_defs =
  analyze_try_def page_ok_def destructure_html_def substring_30000_def
  JSON_parse_sample_def scenario_text_def url_text_def extra_text_def

lemma try_answering_scenario:
  "analyze_try (world_answering (Some scenario_text)) k u = Inr scenario_data"
  by (simp add: world_answering_def sample_defs)

lemma try_answering_url_text:
  "analyze_try (world_answering (Some url_text)) k u =
     Inr (JObj [(''url'', JStr ''https://b.example''), (''status'', JStr ''pending'')])"
  by (simp add: world_answering_def sample_defs)

lemma try_answering_extra_text:
  "analyze_try (world_answering (Some extra_text)) k u =
     Inr (JObj [(''summary'', JStr ''ok''), (''score'', JNum 7)])"
  by (simp add: world_answering_def sample_defs)


lemma try_answering_nothing:
  "analyze_try (world_answering None) k u = Inr (JObj [])"
  by (simp add: world_answering_def sample_defs)

lemma try_second_scoring_fails:
  "analyze_try world_second_scoring_fails k u =
     (if k = 1 then Inl (Error ''503 Service Unavailable'') else Inr scenario_data)"
  by (simp add: world_second_scoring_fails_def sample_defs)


lemmas run_defs =
  handleAnalyze_def Let_def replace_by_url_def pending_record_def get_def analyzeUrl_def
  success_record_def error_record_def scenario_data_def

section \<open>Fields of the seeded and of the failed record\<close>

lemma get_pending_fields:
  "get (pending_record u) ''status'' = JStr ''pending''"
  "get (pending_record u) ''missingToC'' = JBool False"
  "get (pending_record u) ''deepLinkableAnchors'' = JBool False"
  "get (pending_record u) ''naturalLanguageHeadings'' = JBool False"
  "get (pending_record u) ''highInformationDensity'' = JBool False"
  "get (pending_record u) ''semanticHtml'' = JBool False"
  "get (pending_record u) ''summary'' = JStr []"
  "get (pending_record u) ''error'' = JUndefined"
  by (simp_all add: get_def pending_record_def)

lemma get_error_fields:
  "get (error_record u e) ''status'' = JStr ''error''"
  "get (error_record u e) ''missingToC'' = JBool False"
  "get (error_record u e) ''deepLinkableAnchors'' = JBool False"
  "get (error_record u e) ''naturalLanguageHeadings'' = JBool False"
  "get (error_record u e) ''highInformationDensity'' = JBool False"
  "get (error_record u e) ''semanticHtml'' = JBool False"
  "get (error_record u e) ''summary'' = JStr []"
  "get (error_record u e) ''error'' = JStr (message e)"
  by (simp_all add: get_def error_record_def)


lemma pending_record_typed: "is_AnalysisResult (pending_record u)"
  by (simp add: is_AnalysisResult_def get_def pending_record_def is_string_def is_boolean_def)

lemma analyzeUrl_status:
  assumes "\<forall>data. analyze_try w k u = Inr data \<longrightarrow> \<not> has_own data ''status''"
  shows "get (analyzeUrl w k u) ''status'' =
           JStr (case analyze_try w k u of Inl e \<Rightarrow> ''error'' | Inr data \<Rightarrow> ''success'')"
proof (cases "analyze_try w k u")
  case (Inl e)
  then show ?thesis by (simp add: analyzeUrl_def get_error_fields)
next
  case (Inr data)
  with assms have "map_of (own_props data) ''status'' = None" by (simp add: has_own_def)
  with Inr show ?thesis by (simp add: analyzeUrl_def get_success)
qed




section \<open>Status transitions\<close>

text \<open>
  Claim C1, as the code has it. Take a record whose line occurs once among the trimmed,
  non-empty lines of the input, and whose parsed scoring answer, if there is one, has no
  property named \<^verbatim>\<open>url\<close> or \<^verbatim>\<open>status\<close>. Across the published result lists its status
  is \<^verbatim>\<open>pending\<close> up to the completion of its own analysis and the terminal status of
  that analysis (\<^verbatim>\<open>error\<close> when the \<^verbatim>\<open>try\<close> block threw, \<^verbatim>\<open>success\<close> otherwise) from
  then on: it changes exactly once, and never back.
\<close>

theorem status_changes_once_for_single_line:
  assumes ne: "urlList urls \<noteq> []"
    and i: "i < length (urlList urls)"
    and uniq: "\<forall>j < length (urlList urls). j \<noteq> i \<longrightarrow> urlList urls ! j \<noteq> urlList urls ! i"
    and plain: "\<forall>data. analyze_try w i (urlList urls ! i) = Inr data \<longrightarrow>
                  \<not> has_own data ''url'' \<and> \<not> has_own data ''status''"
  shows "length (published (handleAnalyze w urls)) = Suc (length (urlList urls))
       \<and> (\<forall>j \<le> length (urlList urls).
            get (published (handleAnalyze w urls) ! j ! i) ''status'' =
              (if j \<le> i then JStr ''pending''
               else JStr (case analyze_try w i (urlList urls ! i) of
                            Inl e \<Rightarrow> ''error'' | Inr data \<Rightarrow> ''success'')))"
proof -
  have keep: "get (analyzeUrl w i (urlList urls ! i)) ''url'' = JStr (urlList urls ! i)"
    using plain by (intro analyzeUrl_keeps_url) simp
  have status: "get (analyzeUrl w i (urlList urls ! i)) ''status'' =
      JStr (case analyze_try w i (urlList urls ! i) of Inl e \<Rightarrow> ''error'' | Inr data \<Rightarrow> ''success'')"
    using plain by (intro analyzeUrl_status) simp
  have "get (published (handleAnalyze w urls) ! j ! i) ''status'' =
          (if j \<le> i then JStr ''pending''
           else JStr (case analyze_try w i (urlList urls ! i) of
                        Inl e \<Rightarrow> ''error'' | Inr data \<Rightarrow> ''success''))"
    if "j \<le> length (urlList urls)" for j
    using unique_position [OF ne i uniq keep that] status
    by (simp add: get_pending_fields not_less)
  then show ?thesis
    using handle_length [OF ne, of w] by simp
qed

text \<open>The second of two different lines, whose scoring call throws.\<close>

theorem status_changes_once_for_single_line_witness:
  "urlList two_urls \<noteq> []
   \<and> (1::nat) < length (urlList two_urls)
   \<and> urlList two_urls ! 0 \<noteq> urlList two_urls ! 1
   \<and> analyze_try world_second_scoring_fails 1 (urlList two_urls ! 1) = Inl (Error ''503 Service Unavailable'')
   \<and> length (published (handleAnalyze world_second_scoring_fails two_urls)) = 3
   \<and> get (published (handleAnalyze world_second_scoring_fails two_urls) ! 0 ! 1) ''status'' = JStr ''pending''
   \<and> get (published (handleAnalyze world_second_scoring_fails two_urls) ! 1 ! 1) ''status'' = JStr ''pending''
   \<and> get (published (handleAnalyze world_second_scoring_fails two_urls) ! 2 ! 1) ''status'' = JStr ''error''"
proof -
  have ne: "urlList two_urls \<noteq> []" by (simp add: urlList_two_urls)
  have i: "(1::nat) < length (urlList two_urls)" by (simp add: urlList_two_urls)
  have differ: "urlList two_urls ! 0 \<noteq> urlList two_urls ! 1" by (simp add: urlList_two_urls)
  have uniq: "\<forall>j < length (urlList two_urls). j \<noteq> 1 \<longrightarrow> urlList two_urls ! j \<noteq> urlList two_urls ! 1"
    by (auto simp add: urlList_two_urls less_Suc_eq)
  have thrown: "analyze_try world_second_scoring_fails 1 (urlList two_urls ! 1) = Inl (Error ''503 Service Unavailable'')"
    by (simp add: try_second_scoring_fails)
  have plain: "\<forall>data. analyze_try world_second_scoring_fails 1 (urlList two_urls ! 1) = Inr data \<longrightarrow>
                  \<not> has_own data ''url'' \<and> \<not> has_own data ''status''"
    using thrown by simp
  note once = status_changes_once_for_single_line [OF ne i uniq plain]
  have len: "length (published (handleAnalyze world_second_scoring_fails two_urls)) = 3"
    using once by (simp add: urlList_two_urls)
  have all: "\<forall>j \<le> 2. get (published (handleAnalyze world_second_scoring_fails two_urls) ! j ! 1) ''status'' =
              (if j \<le> 1 then JStr ''pending'' else JStr ''error'')"
    using once thrown by (simp add: urlList_two_urls)
  have s0: "get (published (handleAnalyze world_second_scoring_fails two_urls) ! 0 ! 1) ''status'' = JStr ''pending''"
    using all by (elim allE [of _ 0]) simp
  have s1: "get (published (handleAnalyze world_second_scoring_fails two_urls) ! 1 ! 1) ''status'' = JStr ''pending''"
    using all by (elim allE [of _ 1]) simp
  have s2: "get (published (handleAnalyze world_second_scoring_fails two_urls) ! 2 ! 1) ''status'' = JStr ''error''"
    using all by (elim allE [of _ 2]) simp
  show ?thesis using ne i differ thrown len s0 s1 s2 by blast
qed

text \<open>
  With the same line twice, the first analysis succeeding and the second failing, the
  first record is \<^verbatim>\<open>success\<close> after the first completion and \<^verbatim>\<open>error\<close> after the
  second: the update replaces every record of that URL.
\<close>

theorem status_flips_for_repeated_line:
  "get (published (handleAnalyze world_second_scoring_fails same_url_twice) ! 0 ! 0) ''status'' = JStr ''pending''
   \<and> get (published (handleAnalyze world_second_scoring_fails same_url_twice) ! 1 ! 0) ''status'' = JStr ''success''
   \<and> get (published (handleAnalyze world_second_scoring_fails same_url_twice) ! 2 ! 0) ''status'' = JStr ''error''"
  by (simp add: urlList_same_url_twice try_second_scoring_fails run_defs)

section \<open>One record per line\<close>







section \<open>The initial snapshot\<close>

text \<open>
  Claim C4. When the trimmed, non-empty lines of the input are not none,
  \<^verbatim>\<open>handleAnalyze\<close> first sets the analysing flag and then publishes, before it
  calls \<^verbatim>\<open>analyzeUrl\<close> at all, a result list with one record per line in input
  order, each with status \<^verbatim>\<open>pending\<close>, the five criteria false and an empty summary.
\<close>

theorem initial_snapshot_is_pending:
  assumes "urlList urls \<noteq> []"
  shows "take 2 (handleAnalyze w urls) =
           [SetIsAnalyzing True, SetResults (map pending_record (urlList urls))]
       \<and> published (handleAnalyze w urls) ! 0 = map pending_record (urlList urls)
       \<and> length (published (handleAnalyze w urls) ! 0) = length (urlList urls)
       \<and> (\<forall>i < length (urlList urls).
            get (published (handleAnalyze w urls) ! 0 ! i) ''url'' = JStr (urlList urls ! i)
          \<and> get (published (handleAnalyze w urls) ! 0 ! i) ''status'' = JStr ''pending''
          \<and> get (published (handleAnalyze w urls) ! 0 ! i) ''missingToC'' = JBool False
          \<and> get (published (handleAnalyze w urls) ! 0 ! i) ''deepLinkableAnchors'' = JBool False
          \<and> get (published (handleAnalyze w urls) ! 0 ! i) ''naturalLanguageHeadings'' = JBool False
          \<and> get (published (handleAnalyze w urls) ! 0 ! i) ''highInformationDensity'' = JBool False
          \<and> get (published (handleAnalyze w urls) ! 0 ! i) ''semanticHtml'' = JBool False
          \<and> get (published (handleAnalyze w urls) ! 0 ! i) ''summary'' = JStr [])"
proof -
  have events: "take 2 (handleAnalyze w urls) =
                  [SetIsAnalyzing True, SetResults (map pending_record (urlList urls))]"
    using assms by (simp add: handleAnalyze_def Let_def)
  have first: "published (handleAnalyze w urls) ! 0 = map pending_record (urlList urls)"
    using assms by (rule handle_first)
  show ?thesis
    using events first by (simp add: get_pending_url get_pending_fields)
qed

text \<open>The run over two lines, whatever the collaborators do later.\<close>

theorem initial_snapshot_is_pending_witness:
  "urlList two_urls \<noteq> []
   \<and> take 2 (handleAnalyze world_first_fetch_fails two_urls) =
       [SetIsAnalyzing True,
        SetResults [pending_record ''https://a.example'', pending_record ''https://b.example'']]
   \<and> get (published (handleAnalyze world_first_fetch_fails two_urls) ! 0 ! 1) ''status'' = JStr ''pending''"
proof -
  have ne: "urlList two_urls \<noteq> []" by (simp add: urlList_two_urls)
  note snap = initial_snapshot_is_pending [OF ne, of world_first_fetch_fails]
  have events: "take 2 (handleAnalyze world_first_fetch_fails two_urls) =
       [SetIsAnalyzing True,
        SetResults [pending_record ''https://a.example'', pending_record ''https://b.example'']]"
    using snap by (simp add: urlList_two_urls)
  have "1 < length (urlList two_urls)" by (simp add: urlList_two_urls)
  with snap have "get (published (handleAnalyze world_first_fetch_fails two_urls) ! 0 ! 1) ''status'' = JStr ''pending''"
    by blast
  with ne events show ?thesis by blast
qed

section \<open>Failures\<close>







section \<open>The parsed answer\<close>

text \<open>
  Claim C7, as the code has it. Let the page be retrieved and the scoring call resolve.
  When the answer's text is \<^verbatim>\<open>undefined\<close> or empty, \<^verbatim>\<open>{}\<close> is parsed in its place and
  the record has status \<^verbatim>\<open>success\<close> and none of the six fields; the same holds when
  the text parses to a value without own properties. When \<^verbatim>\<open>JSON.parse\<close> throws on a
  non-empty text, the record is the one of the \<^verbatim>\<open>catch\<close> block, with status
  \<^verbatim>\<open>error\<close> and the parser's message.
\<close>

theorem empty_answer_succeeds_unparsable_fails:
  assumes page: "fetch w k url = FetchResolves True statusText (Inr (JObj ps))"
    and html: "map_of ps ''html'' = Some (JStr h)"
    and answer: "generateContent w k (contents (take 30000 h)) = GenerateResolves text"
  shows "((text = None \<or> text = Some []) \<and> JSON_parse w ''{}'' = Inr (JObj []) \<longrightarrow>
            analyzeUrl w k url = [''url'' \<mapsto> JStr url, ''status'' \<mapsto> JStr ''success''])
       \<and> (\<forall>t e. text = Some t \<and> t \<noteq> [] \<and> JSON_parse w t = Inl e \<longrightarrow>
            analyzeUrl w k url = error_record url e)
       \<and> (\<forall>t data. text = Some t \<and> t \<noteq> [] \<and> JSON_parse w t = Inr data \<and> own_props data = [] \<longrightarrow>
            analyzeUrl w k url = [''url'' \<mapsto> JStr url, ''status'' \<mapsto> JStr ''success''])"
proof -
  have parsed: "analyze_try w k url =
      JSON_parse w (case text of None \<Rightarrow> ''{}'' | Some t \<Rightarrow> if t = [] then ''{}'' else t)"
    using page html answer
    by (simp add: analyze_try_def destructure_html_def substring_30000_def)
  show ?thesis
    unfolding analyzeUrl_def parsed
    by (auto simp add: success_record_def)
qed

text \<open>An answer without text, the answer \<^verbatim>\<open>not json\<close>, and the answer \<^verbatim>\<open>{}\<close>.\<close>

theorem empty_answer_succeeds_unparsable_fails_witness:
  "fetch (world_answering None) 0 ''https://a.example'' =
     FetchResolves True ''OK'' (Inr (JObj [(''html'', JStr ''<main><h1>Golf</h1></main>'')]))
   \<and> generateContent (world_answering None) 0 (contents (take 30000 ''<main><h1>Golf</h1></main>'')) =
       GenerateResolves None
   \<and> JSON_parse (world_answering None) ''{}'' = Inr (JObj [])
   \<and> analyzeUrl (world_answering None) 0 ''https://a.example'' =
       [''url'' \<mapsto> JStr ''https://a.example'', ''status'' \<mapsto> JStr ''success'']
   \<and> generateContent (world_answering (Some ''not json'')) 0 (contents (take 30000 ''<main><h1>Golf</h1></main>'')) =
       GenerateResolves (Some ''not json'')
   \<and> JSON_parse (world_answering (Some ''not json'')) ''not json'' =
       Inl (Error ''Unexpected token in JSON: not json'')
   \<and> analyzeUrl (world_answering (Some ''not json'')) 0 ''https://a.example'' =
       error_record ''https://a.example'' (Error ''Unexpected token in JSON: not json'')
   \<and> generateContent (world_answering (Some ''{}'')) 0 (contents (take 30000 ''<main><h1>Golf</h1></main>'')) =
       GenerateResolves (Some ''{}'')
   \<and> JSON_parse (world_answering (Some ''{}'')) ''{}'' = Inr (JObj [])
   \<and> analyzeUrl (world_answering (Some ''{}'')) 0 ''https://a.example'' =
       [''url'' \<mapsto> JStr ''https://a.example'', ''status'' \<mapsto> JStr ''success'']"
proof -
  let ?page = "''<main><h1>Golf</h1></main>''"
  have page: "fetch (world_answering t) 0 ''https://a.example'' =
      FetchResolves True ''OK'' (Inr (JObj [(''html'', JStr ?page)]))" for t
    by (simp add: world_answering_def page_ok_def)
  have html: "map_of [(''html'', JStr ?page)] ''html'' = Some (JStr ?page)" by simp
  have answer: "generateContent (world_answering t) 0 (contents (take 30000 ?page)) =
      GenerateResolves t" for t
    by (simp add: world_answering_def)
  have empty: "JSON_parse (world_answering t) ''{}'' = Inr (JObj [])" for t
    by (simp add: world_answering_def JSON_parse_sample_def)
  have bad: "JSON_parse (world_answering t) ''not json'' =
      Inl (Error ''Unexpected token in JSON: not json'')" for t
    by (simp add: world_answering_def sample_defs)
  have r1: "analyzeUrl (world_answering None) 0 ''https://a.example'' =
       [''url'' \<mapsto> JStr ''https://a.example'', ''status'' \<mapsto> JStr ''success'']"
    using empty_answer_succeeds_unparsable_fails [OF page html answer, of None] empty [of None]
    by blast
  have r2: "analyzeUrl (world_answering (Some ''not json'')) 0 ''https://a.example'' =
       error_record ''https://a.example'' (Error ''Unexpected token in JSON: not json'')"
    using empty_answer_succeeds_unparsable_fails [OF page html answer, of "Some ''not json''"]
      bad [of "Some ''not json''"]
    by auto
  have r3: "analyzeUrl (world_answering (Some ''{}'')) 0 ''https://a.example'' =
       [''url'' \<mapsto> JStr ''https://a.example'', ''status'' \<mapsto> JStr ''success'']"
    using empty_answer_succeeds_unparsable_fails [OF page html answer, of "Some ''{}''"]
      empty [of "Some ''{}''"]
    by auto
  show ?thesis
    using page [of None] answer [of None] empty [of None] r1
      answer [of "Some ''not json''"] bad [of "Some ''not json''"] r2
      answer [of "Some ''{}''"] empty [of "Some ''{}''"] r3
    by blast
qed

text \<open>A text that is not JSON makes the URL fail.\<close>

theorem unparsable_answer_is_error:
  "generateContent (world_answering (Some ''not json'')) 0 (contents ''<main><h1>Golf</h1></main>'') =
     GenerateResolves (Some ''not json'')
   \<and> JSON_parse (world_answering (Some ''not json'')) ''not json'' =
       Inl (Error ''Unexpected token in JSON: not json'')
   \<and> get (analyzeUrl (world_answering (Some ''not json'')) 0 ''https://a.example'') ''status'' = JStr ''error''
   \<and> get (analyzeUrl (world_answering (Some ''not json'')) 0 ''https://a.example'') ''error'' =
       JStr ''Unexpected token in JSON: not json''"
  by (simp add: run_defs world_answering_def sample_defs)

text \<open>
  Claim C8, as the code has it. On success the record is \<^verbatim>\<open>url\<close> and
  \<^verbatim>\<open>status: 'success'\<close> overlaid with every own property of the parsed answer: a
  property of the answer is in the record with the answer's value (also under the names
  \<^verbatim>\<open>url\<close> and \<^verbatim>\<open>status\<close>), and any other property but those two is undefined.
\<close>

theorem success_record_copies_every_property:
  assumes "analyze_try w k url = Inr data"
  shows "analyzeUrl w k url = success_record url data
       \<and> (\<forall>key. get (analyzeUrl w k url) key =
            (case map_of (own_props data) key of
               Some v \<Rightarrow> v
             | None \<Rightarrow> if key = ''url'' then JStr url
                       else if key = ''status'' then JStr ''success'' else JUndefined))"
  using assms by (simp add: analyzeUrl_def get_success)

text \<open>The answer of the specification's scenario.\<close>

theorem success_record_copies_every_property_witness:
  "analyze_try (world_answering (Some scenario_text)) 0 ''https://a.example'' = Inr scenario_data
   \<and> get (analyzeUrl (world_answering (Some scenario_text)) 0 ''https://a.example'') ''url'' = JStr ''https://a.example''
   \<and> get (analyzeUrl (world_answering (Some scenario_text)) 0 ''https://a.example'') ''status'' = JStr ''success''
   \<and> get (analyzeUrl (world_answering (Some scenario_text)) 0 ''https://a.example'') ''missingToC'' = JBool True
   \<and> get (analyzeUrl (world_answering (Some scenario_text)) 0 ''https://a.example'') ''deepLinkableAnchors'' = JBool False
   \<and> get (analyzeUrl (world_answering (Some scenario_text)) 0 ''https://a.example'') ''summary'' = JStr ''ok''
   \<and> get (analyzeUrl (world_answering (Some scenario_text)) 0 ''https://a.example'') ''error'' = JUndefined"
proof -
  have parsed: "analyze_try (world_answering (Some scenario_text)) 0 ''https://a.example'' = Inr scenario_data"
    by (rule try_answering_scenario)
  note copy = success_record_copies_every_property [OF parsed, THEN conjunct2, rule_format]
  show ?thesis
    using parsed copy [of "''url''"] copy [of "''status''"] copy [of "''missingToC''"]
      copy [of "''deepLinkableAnchors''"] copy [of "''summary''"] copy [of "''error''"]
    by (simp add: scenario_data_def)
qed

text \<open>
  A property outside the schema appears in the record, and \<^verbatim>\<open>url\<close> and \<^verbatim>\<open>status\<close>
  in the answer replace those of the record.
\<close>

theorem extra_properties_are_copied:
  "analyze_try (world_answering (Some extra_text)) 0 ''https://a.example'' =
     Inr (JObj [(''summary'', JStr ''ok''), (''score'', JNum 7)])
   \<and> get (analyzeUrl (world_answering (Some extra_text)) 0 ''https://a.example'') ''score'' = JNum 7
   \<and> get (analyzeUrl (world_answering (Some url_text)) 0 ''https://a.example'') ''url'' = JStr ''https://b.example''
   \<and> get (analyzeUrl (world_answering (Some url_text)) 0 ''https://a.example'') ''status'' = JStr ''pending''"
  by (simp add: try_answering_extra_text try_answering_url_text run_defs)

section \<open>Spreadsheet import\<close>










section \<open>Spreadsheet export\<close>






end
